theory Spec2Isabelle
  imports Main "HOL-Library.AList"
begin

section \<open>Python values as the bridge script sees them\<close>

text \<open>
  The script \<^verbatim>\<open>python_openai_bridge.py\<close> works on values decoded from JSON documents:
  \<^verbatim>\<open>None\<close>, booleans, integers, floats, strings, lists and dictionaries with string keys.

  A Python \<^verbatim>\<open>str\<close> is a sequence of Unicode code points, so it is a list of naturals
  here; \<open>py ''abc''\<close> writes a literal. A Python \<^verbatim>\<open>dict\<close> keeps insertion order, so it is
  an association list, updated with \<^const>\<open>AList.update\<close>.

  The script never computes with floats: every float it meets was produced by the JSON
  decoder and is only ever written out again, tested for truth or truncated by
  \<^verbatim>\<open>int\<close>. A float is therefore represented by exactly these three observations;
  binary floating point itself is not interpreted.
\<close>

type_synonym pystr = "nat list"

definition py :: "string \<Rightarrow> pystr" where
  "py s = map of_char s"

datatype error = AttributeError | TypeError | KeyError | IndexError | ValueError | OverflowError

datatype pyfloat = PyFloat (float_repr: pystr) (float_nonzero: bool) (float_trunc: "error + int")

datatype json =
    JNull
  | JBool bool
  | JInt int
  | JFloat pyfloat
  | JStr pystr
  | JArr "json list"
  | JObj "(pystr \<times> json) list"

text \<open>Exceptions are values: \<open>Inl e\<close> is a raised \<open>e\<close>, and \<open>ebind\<close> sequences two steps.\<close>

definition ebind :: "error + 'a \<Rightarrow> ('a \<Rightarrow> error + 'b) \<Rightarrow> error + 'b" where
  "ebind m f = (case m of Inl e \<Rightarrow> Inl e | Inr x \<Rightarrow> f x)"

text \<open>Truth value testing, and \<^verbatim>\<open>a or b\<close> on values.\<close>

fun truthy :: "json \<Rightarrow> bool" where
  "truthy JNull = False"
| "truthy (JBool b) = b"
| "truthy (JInt n) = (n \<noteq> 0)"
| "truthy (JFloat f) = float_nonzero f"
| "truthy (JStr s) = (s \<noteq> [])"
| "truthy (JArr vs) = (vs \<noteq> [])"
| "truthy (JObj kvs) = (kvs \<noteq> [])"

definition py_or :: "json \<Rightarrow> json \<Rightarrow> json" where
  "py_or a b = (if truthy a then a else b)"

text \<open>\<^verbatim>\<open>d.get(k)\<close> on a dictionary returns \<^verbatim>\<open>None\<close> for a missing key; on any other
  value the attribute lookup raises.\<close>

definition dict_get :: "(pystr \<times> json) list \<Rightarrow> pystr \<Rightarrow> json" where
  "dict_get kvs k = (case map_of kvs k of None \<Rightarrow> JNull | Some v \<Rightarrow> v)"

fun get :: "json \<Rightarrow> pystr \<Rightarrow> error + json" where
  "get (JObj kvs) k = Inr (dict_get kvs k)"
| "get _ k = Inl AttributeError"

text \<open>\<^verbatim>\<open>for x in v\<close>: a list yields its items, a string its characters, a dictionary its
  keys; numbers, booleans and \<^verbatim>\<open>None\<close> are not iterable.\<close>

fun iterate :: "json \<Rightarrow> error + json list" where
  "iterate (JArr vs) = Inr vs"
| "iterate (JStr s) = Inr (map (\<lambda>c. JStr [c]) s)"
| "iterate (JObj kvs) = Inr (map (\<lambda>kv. JStr (fst kv)) kvs)"
| "iterate _ = Inl TypeError"

subsection \<open>String methods\<close>

text \<open>\<^verbatim>\<open>str.strip()\<close> removes the characters for which \<^verbatim>\<open>str.isspace()\<close> holds from
  both ends.\<close>

definition is_space :: "nat \<Rightarrow> bool" where
  "is_space c \<longleftrightarrow> (9 \<le> c \<and> c \<le> 13) \<or> (28 \<le> c \<and> c \<le> 32) \<or> c = 133 \<or> c = 160
     \<or> c = 5760 \<or> (8192 \<le> c \<and> c \<le> 8202) \<or> c = 8232 \<or> c = 8233 \<or> c = 8239
     \<or> c = 8287 \<or> c = 12288"

definition strip :: "pystr \<Rightarrow> pystr" where
  "strip s = rev (dropWhile is_space (rev (dropWhile is_space s)))"



text \<open>A method of \<^verbatim>\<open>str\<close> called on some value: any other type has no such attribute.\<close>

fun strip_method :: "json \<Rightarrow> error + pystr" where
  "strip_method (JStr s) = Inr (strip s)"
| "strip_method _ = Inl AttributeError"

text \<open>\<^verbatim>\<open>sep.join(parts)\<close>.\<close>

fun join :: "pystr \<Rightarrow> pystr list \<Rightarrow> pystr" where
  "join sep [] = []"
| "join sep [x] = x"
| "join sep (x # y # xs) = x @ sep @ join sep (y # xs)"

subsection \<open>Integers and their decimal text\<close>

definition is_digit :: "nat \<Rightarrow> bool" where
  "is_digit c \<longleftrightarrow> 48 \<le> c \<and> c \<le> 57"

fun digits_value :: "nat \<Rightarrow> pystr \<Rightarrow> nat" where
  "digits_value acc [] = acc"
| "digits_value acc (c # cs) = digits_value (10 * acc + (c - 48)) cs"

fun nat_digits :: "nat \<Rightarrow> pystr" where
  "nat_digits n = (if n < 10 then [48 + n] else nat_digits (n div 10) @ [48 + n mod 10])"

declare nat_digits.simps [simp del]

text \<open>\<^verbatim>\<open>str(n)\<close> for an integer.\<close>

definition int_str :: "int \<Rightarrow> pystr" where
  "int_str n = (if n < 0 then 45 # nat_digits (nat (- n)) else nat_digits (nat n))"




section \<open>The JSON encoder: \<^verbatim>\<open>json.dumps(v, ensure_ascii=False)\<close>\<close>

text \<open>
  With \<^verbatim>\<open>ensure_ascii=False\<close> only the quote, the backslash and the control characters
  below U+0020 are escaped; the item separator is \<^verbatim>\<open>", "\<close> and the key separator
  \<^verbatim>\<open>": "\<close>.
\<close>

definition hex_digit :: "nat \<Rightarrow> nat" where
  "hex_digit d = (if d < 10 then 48 + d else 87 + d)"

definition escape_char :: "nat \<Rightarrow> pystr" where
  "escape_char c =
     (if c = 34 then [92, 34]
      else if c = 92 then [92, 92]
      else if c = 8 then [92, 98]
      else if c = 12 then [92, 102]
      else if c = 10 then [92, 110]
      else if c = 13 then [92, 114]
      else if c = 9 then [92, 116]
      else if c < 32 then [92, 117, 48, 48, hex_digit (c div 16), hex_digit (c mod 16)]
      else [c])"

definition encode_basestring :: "pystr \<Rightarrow> pystr" where
  "encode_basestring s = 34 # concat (map escape_char s) @ [34]"

fun dumps :: "json \<Rightarrow> pystr"
  and dumps_items :: "json list \<Rightarrow> pystr"
  and dumps_pairs :: "(pystr \<times> json) list \<Rightarrow> pystr" where
  "dumps JNull = py ''null''"
| "dumps (JBool b) = (if b then py ''true'' else py ''false'')"
| "dumps (JInt n) = int_str n"
| "dumps (JFloat f) = float_repr f"
| "dumps (JStr s) = encode_basestring s"
| "dumps (JArr vs) = 91 # dumps_items vs @ [93]"
| "dumps (JObj kvs) = 123 # dumps_pairs kvs @ [125]"
| "dumps_items [] = []"
| "dumps_items [v] = dumps v"
| "dumps_items (v # w # vs) = dumps v @ [44, 32] @ dumps_items (w # vs)"
| "dumps_pairs [] = []"
| "dumps_pairs [(k, v)] = encode_basestring k @ [58, 32] @ dumps v"
| "dumps_pairs ((k, v) # p # kvs) =
     encode_basestring k @ [58, 32] @ dumps v @ [44, 32] @ dumps_pairs (p # kvs)"

section \<open>The request translator\<close>

text \<open>
  \<^verbatim>\<open>
  def to_text(value):
      if value is None:
          return ""
      if isinstance(value, str):
          return value
      return json.dumps(value, ensure_ascii=False)
  \<close>
\<close>

fun to_text :: "json \<Rightarrow> pystr" where
  "to_text JNull = []"
| "to_text (JStr s) = s"
| "to_text v = dumps v"

text \<open>The dictionary literals the script builds for backend messages.\<close>

definition message :: "pystr \<Rightarrow> pystr \<Rightarrow> json" where
  "message role content = JObj [(py ''role'', JStr role), (py ''content'', JStr content)]"

definition tool_message :: "json \<Rightarrow> pystr \<Rightarrow> json" where
  "tool_message call_id content =
     JObj [(py ''role'', JStr (py ''tool'')), (py ''tool_call_id'', call_id),
           (py ''content'', JStr content)]"

definition tool_call :: "(pystr \<times> json) list \<Rightarrow> json" where
  "tool_call block =
     JObj [(py ''id'', py_or (dict_get block (py ''id'')) (JStr [])),
           (py ''type'', JStr (py ''function'')),
           (py ''function'',
              JObj [(py ''name'', py_or (dict_get block (py ''name'')) (JStr [])),
                    (py ''arguments'',
                       JStr (dumps (py_or (dict_get block (py ''input'')) (JObj []))))])]"

text \<open>
  The loop of the assistant branch (lines 29 to 49 of the script), with its two
  accumulators \<^verbatim>\<open>text_parts\<close> and \<^verbatim>\<open>tool_calls\<close>. A dictionary whose type is neither
  \<^verbatim>\<open>"text"\<close> nor \<^verbatim>\<open>"tool_use"\<close> falls through all three tests and adds nothing.
\<close>

fun assistant_loop :: "json list \<Rightarrow> pystr list \<Rightarrow> json list \<Rightarrow> pystr list \<times> json list" where
  "assistant_loop [] text_parts tool_calls = (text_parts, tool_calls)"
| "assistant_loop (JObj block # rest) text_parts tool_calls =
     (let btype = dict_get block (py ''type'') in
      if btype = JStr (py ''text'')
      then assistant_loop rest (text_parts @ [to_text (dict_get block (py ''text''))]) tool_calls
      else if btype = JStr (py ''tool_use'')
      then assistant_loop rest text_parts (tool_calls @ [tool_call block])
      else assistant_loop rest text_parts tool_calls)"
| "assistant_loop (block # rest) text_parts tool_calls =
     assistant_loop rest (text_parts @ [to_text block]) tool_calls"

text \<open>
  The loop of the user branch (lines 57 to 77), with its accumulators \<^verbatim>\<open>out\<close> and
  \<^verbatim>\<open>text_parts\<close>.
\<close>

definition call_id :: "(pystr \<times> json) list \<Rightarrow> json" where
  "call_id block =
     py_or (dict_get block (py ''tool_use_id'')) (py_or (dict_get block (py ''id'')) (JStr []))"

fun user_loop :: "json list \<Rightarrow> json list \<Rightarrow> pystr list \<Rightarrow> json list \<times> pystr list" where
  "user_loop [] out text_parts = (out, text_parts)"
| "user_loop (JObj block # rest) out text_parts =
     (let btype = dict_get block (py ''type'') in
      if btype = JStr (py ''tool_result'')
      then user_loop rest
             (out @ [tool_message (call_id block) (to_text (dict_get block (py ''content'')))])
             text_parts
      else if btype = JStr (py ''text'')
      then user_loop rest out (text_parts @ [to_text (dict_get block (py ''text''))])
      else user_loop rest out (text_parts @ [to_text (JObj block)]))"
| "user_loop (block # rest) out text_parts = user_loop rest out (text_parts @ [to_text block])"

text \<open>
  \<^verbatim>\<open>blocks_to_openai_messages(role, content)\<close>. The caller always passes a string as
  \<^verbatim>\<open>role\<close>. No step of the function can raise.
\<close>

fun blocks_to_openai_messages :: "pystr \<Rightarrow> json \<Rightarrow> json list" where
  "blocks_to_openai_messages role (JStr content) = [message role content]"
| "blocks_to_openai_messages role (JArr content) =
     (if role = py ''assistant'' then
        (case assistant_loop content [] [] of (text_parts, tool_calls) \<Rightarrow>
           [JObj ([(py ''role'', JStr (py ''assistant'')),
                   (py ''content'',
                      JStr (if text_parts \<noteq> [] then join [10] (filter (\<lambda>x. x \<noteq> []) text_parts)
                            else []))]
                  @ (if tool_calls \<noteq> [] then [(py ''tool_calls'', JArr tool_calls)] else []))])
      else if role = py ''user'' then
        (case user_loop content [] [] of (out, text_parts) \<Rightarrow>
           (let out' = (if text_parts \<noteq> [] then message (py ''user'') (join [10] text_parts) # out
                        else out)
            in if out' \<noteq> [] then out' else [message (py ''user'') []]))
      else [message role (to_text (JArr content))])"
| "blocks_to_openai_messages role content = [message role (to_text content)]"

text \<open>
  \<^verbatim>\<open>
  def canonical_to_openai_messages(system_prompt, messages):
      out = []
      if system_prompt is not None and to_text(system_prompt):
          out.append({"role": "system", "content": to_text(system_prompt)})
      for message in messages or []:
          role = (message.get("role") or "user").strip() or "user"
          out.extend(blocks_to_openai_messages(role, message.get("content")))
      return out
  \<close>
  The body of the loop raises when a message is not a dictionary or its role is a
  non-empty value that is not a string.
\<close>

definition message_to_openai :: "json \<Rightarrow> error + json list" where
  "message_to_openai msg =
     ebind (get msg (py ''role'')) (\<lambda>r.
     ebind (strip_method (py_or r (JStr (py ''user'')))) (\<lambda>stripped.
     let role = (if stripped \<noteq> [] then stripped else py ''user'') in
     ebind (get msg (py ''content'')) (\<lambda>content.
     Inr (blocks_to_openai_messages role content))))"

fun messages_loop :: "json list \<Rightarrow> json list \<Rightarrow> error + json list" where
  "messages_loop [] out = Inr out"
| "messages_loop (msg # rest) out =
     ebind (message_to_openai msg) (\<lambda>ms. messages_loop rest (out @ ms))"

definition canonical_to_openai_messages :: "json \<Rightarrow> json \<Rightarrow> error + json list" where
  "canonical_to_openai_messages system_prompt messages =
     (let out = (if system_prompt \<noteq> JNull \<and> to_text system_prompt \<noteq> []
                 then [message (py ''system'') (to_text system_prompt)] else [])
      in ebind (iterate (py_or messages (JArr []))) (\<lambda>items. messages_loop items out))"

section \<open>The JSON decoder: \<^verbatim>\<open>json.loads(s)\<close>\<close>

text \<open>
  The decoder of the standard library, as the interpreter runs it (the scanner
  \<^verbatim>\<open>scan_once\<close>, \<^verbatim>\<open>scanstring\<close> in strict mode, \<^verbatim>\<open>JSONObject\<close> and \<^verbatim>\<open>JSONArray\<close>):
  it works on the text that is left and returns the value with the rest of the text.
  \<open>None\<close> is a raised \<^verbatim>\<open>JSONDecodeError\<close>. Whitespace between tokens is space, tab,
  line feed and carriage return. A number with a fraction or an exponent, and the
  constants \<^verbatim>\<open>NaN\<close>, \<^verbatim>\<open>Infinity\<close> and \<^verbatim>\<open>-Infinity\<close>, become floats: the parameter
  \<open>flt\<close> stands for the interpreter's \<^verbatim>\<open>float(text)\<close>. The interpreter's limits (the
  recursion depth, the number of digits of an integer) are not modelled.
\<close>

definition is_ws :: "nat \<Rightarrow> bool" where
  "is_ws c \<longleftrightarrow> c = 32 \<or> c = 9 \<or> c = 10 \<or> c = 13"

definition skip_ws :: "pystr \<Rightarrow> pystr" where
  "skip_ws s = dropWhile is_ws s"

definition hex_value :: "nat \<Rightarrow> nat option" where
  "hex_value c =
     (if 48 \<le> c \<and> c \<le> 57 then Some (c - 48)
      else if 97 \<le> c \<and> c \<le> 102 then Some (c - 87)
      else if 65 \<le> c \<and> c \<le> 70 then Some (c - 55)
      else None)"

definition hex4 :: "nat \<Rightarrow> nat \<Rightarrow> nat \<Rightarrow> nat \<Rightarrow> nat option" where
  "hex4 a b c d =
     (case (hex_value a, hex_value b, hex_value c, hex_value d) of
        (Some x, Some y, Some z, Some w) \<Rightarrow> Some (((x * 16 + y) * 16 + z) * 16 + w)
      | _ \<Rightarrow> None)"

definition backslash :: "nat \<Rightarrow> nat option" where
  "backslash e =
     (if e = 34 then Some 34
      else if e = 92 then Some 92
      else if e = 47 then Some 47
      else if e = 98 then Some 8
      else if e = 102 then Some 12
      else if e = 110 then Some 10
      else if e = 114 then Some 13
      else if e = 116 then Some 9
      else None)"

definition emit :: "nat \<Rightarrow> (pystr \<times> pystr) option \<Rightarrow> (pystr \<times> pystr) option" where
  "emit c res = (case res of None \<Rightarrow> None | Some (s, r) \<Rightarrow> Some (c # s, r))"

definition decode_uXXXX :: "pystr \<Rightarrow> nat option" where
  "decode_uXXXX r = (case take 4 r of [a, b, c, d] \<Rightarrow> hex4 a b c d | _ \<Rightarrow> None)"

fun scanstring :: "pystr \<Rightarrow> (pystr \<times> pystr) option" where
  "scanstring [] = None"
| "scanstring (c # cs) =
     (if c = 34 then Some ([], cs)
      else if c = 92 then
        (case cs of
           [] \<Rightarrow> None
         | e # r \<Rightarrow>
             if e \<noteq> 117 then
               (case backslash e of None \<Rightarrow> None | Some ch \<Rightarrow> emit ch (scanstring r))
             else
               (case decode_uXXXX r of
                  None \<Rightarrow> None
                | Some uni \<Rightarrow>
                    if 55296 \<le> uni \<and> uni \<le> 56319 \<and> take 2 (drop 4 r) = [92, 117] then
                      (case decode_uXXXX (drop 6 r) of
                         None \<Rightarrow> None
                       | Some uni2 \<Rightarrow>
                           if 56320 \<le> uni2 \<and> uni2 \<le> 57343
                           then emit (65536 + (uni - 55296) * 1024 + (uni2 - 56320))
                                  (scanstring (drop 10 r))
                           else emit uni (scanstring (drop 4 r)))
                    else emit uni (scanstring (drop 4 r))))
      else if c < 32 then None
      else emit c (scanstring cs))"




lemma length_emit: "emit c res = Some (s, r) \<Longrightarrow> \<exists>s'. res = Some (s', r)"
  by (auto simp: emit_def split: option.splits)

lemma scanstring_shorter: "scanstring s = Some (t, r) \<Longrightarrow> length r < length s"
proof (induction "length s" arbitrary: s t r rule: less_induct)
  case less
  have IH: "\<And>s' t' r'. scanstring s' = Some (t', r') \<Longrightarrow> length s' < length s \<Longrightarrow> length r' < length s'"
    using less.hyps by blast
  show ?case
  proof (cases s)
    case Nil
    with less.prems show ?thesis by simp
  next
    case (Cons c cs)
    with less.prems show ?thesis
      by (auto split: if_splits option.splits list.splits dest!: length_emit dest: IH)
  qed
qed


definition match_exponent :: "pystr \<Rightarrow> pystr" where
  "match_exponent s =
     (case s of
        [] \<Rightarrow> []
      | e # r \<Rightarrow>
          if e = 101 \<or> e = 69 then
            (let sign = (case r of [] \<Rightarrow> [] | c # _ \<Rightarrow> if c = 43 \<or> c = 45 then [c] else []);
                 ds = takeWhile is_digit (drop (length sign) r)
             in if ds = [] then [] else e # sign @ ds)
          else [])"

definition match_fraction :: "pystr \<Rightarrow> pystr" where
  "match_fraction s =
     (case s of
        p # q # r \<Rightarrow> if p = 46 \<and> is_digit q then p # q # takeWhile is_digit r else []
      | _ \<Rightarrow> [])"

definition match_number :: "pystr \<Rightarrow> (pystr \<times> pystr \<times> pystr) option" where
  "match_number s =
     (let sign = (if take 1 s = [45] then [45] else []) in
      case drop (length sign) s of
        [] \<Rightarrow> None
      | d # r \<Rightarrow>
          if d = 48 \<or> (49 \<le> d \<and> d \<le> 57) then
            (let ds = (if d = 48 then [] else takeWhile is_digit r);
                 r1 = drop (length ds) r;
                 frac = match_fraction r1;
                 r2 = drop (length frac) r1;
                 ex = match_exponent r2
             in Some (sign @ d # ds, frac @ ex, drop (length ex) r2))
          else None)"

definition int_literal :: "pystr \<Rightarrow> int" where
  "int_literal t = (case t of [] \<Rightarrow> 0 | c # ds \<Rightarrow>
       if c = 45 then - int (digits_value 0 ds) else int (digits_value 0 t))"

definition scan_atom :: "(pystr \<Rightarrow> pyfloat) \<Rightarrow> pystr \<Rightarrow> (json \<times> pystr) option" where
  "scan_atom flt s =
     (if take 4 s = py ''null'' then Some (JNull, drop 4 s)
      else if take 4 s = py ''true'' then Some (JBool True, drop 4 s)
      else if take 5 s = py ''false'' then Some (JBool False, drop 5 s)
      else
        (case match_number s of
           Some (integer, frac_exp, r) \<Rightarrow>
             Some (if frac_exp = [] then JInt (int_literal integer)
                   else JFloat (flt (integer @ frac_exp)), r)
         | None \<Rightarrow>
             if take 3 s = py ''NaN'' then Some (JFloat (flt (py ''NaN'')), drop 3 s)
             else if take 8 s = py ''Infinity'' then Some (JFloat (flt (py ''Infinity'')), drop 8 s)
             else if take 9 s = py ''-Infinity'' then Some (JFloat (flt (py ''-Infinity'')), drop 9 s)
             else None))"

lemma length_skip_ws: "length (skip_ws s) \<le> length s"
  by (simp add: skip_ws_def length_dropWhile_le)

lemma drop_Cons_shorter: "drop n s = d # r \<Longrightarrow> length r < length s"
proof -
  assume "drop n s = d # r"
  then have "length (drop n s) = Suc (length r)" by simp
  then show ?thesis by simp
qed

lemma match_number_shorter: "match_number s = Some (i, fe, r) \<Longrightarrow> length r < length s"
  by (auto simp: match_number_def Let_def split: list.splits if_splits dest!: drop_Cons_shorter)

lemma take_eq_literal_nonempty: "take n s = c # cs \<Longrightarrow> length (drop n s) < length s"
  by (cases n; cases s) auto

lemma scan_atom_shorter: "scan_atom flt s = Some (v, r) \<Longrightarrow> length r < length s"
  by (auto simp: scan_atom_def py_def split: if_splits option.splits
      dest: match_number_shorter take_eq_literal_nonempty)

lemma skip_ws_Cons_shorter: "skip_ws r = d # r' \<Longrightarrow> length r' < length r"
  using length_skip_ws [of r] by simp

text \<open>
  The scanner and the two loops of \<^verbatim>\<open>JSONArray\<close> and \<^verbatim>\<open>JSONObject\<close>, with the values
  and pairs read so far as accumulators. The tests \<open>length r < length s\<close> on the text
  that a value leaves are there for the termination proof; \<open>scan_once_shorter\<close> below
  shows that they always hold.
\<close>

function scan_once :: "(pystr \<Rightarrow> pyfloat) \<Rightarrow> pystr \<Rightarrow> (json \<times> pystr) option"
  and parse_array :: "(pystr \<Rightarrow> pyfloat) \<Rightarrow> json list \<Rightarrow> pystr \<Rightarrow> (json list \<times> pystr) option"
  and parse_object :: "(pystr \<Rightarrow> pyfloat) \<Rightarrow> (pystr \<times> json) list \<Rightarrow> pystr
                        \<Rightarrow> ((pystr \<times> json) list \<times> pystr) option" where
  "scan_once flt [] = None"
| "scan_once flt (c # cs) =
     (if c = 34 then
        (case scanstring cs of None \<Rightarrow> None | Some (s, r) \<Rightarrow> Some (JStr s, r))
      else if c = 123 then
        (if take 1 (skip_ws cs) = [125] then Some (JObj [], drop 1 (skip_ws cs))
         else case parse_object flt [] (skip_ws cs) of
                None \<Rightarrow> None | Some (pairs, r) \<Rightarrow> Some (JObj pairs, r))
      else if c = 91 then
        (if take 1 (skip_ws cs) = [93] then Some (JArr [], drop 1 (skip_ws cs))
         else case parse_array flt [] (skip_ws cs) of
                None \<Rightarrow> None | Some (values, r) \<Rightarrow> Some (JArr values, r))
      else scan_atom flt (c # cs))"
| "parse_array flt values s =
     (case scan_once flt s of
        None \<Rightarrow> None
      | Some (v, r) \<Rightarrow>
          if length r < length s then
            (case skip_ws r of
               [] \<Rightarrow> None
             | d # r' \<Rightarrow>
                 if d = 93 then Some (values @ [v], r')
                 else if d = 44 then parse_array flt (values @ [v]) (skip_ws r')
                 else None)
          else None)"
| "parse_object flt pairs s =
     (case s of
        [] \<Rightarrow> None
      | q # ks \<Rightarrow>
          if q \<noteq> 34 then None
          else
            (case scanstring ks of
               None \<Rightarrow> None
             | Some (key, r1) \<Rightarrow>
                 (case skip_ws r1 of
                    [] \<Rightarrow> None
                  | colon # r2 \<Rightarrow>
                      if colon \<noteq> 58 then None
                      else
                        (case scan_once flt (skip_ws r2) of
                           None \<Rightarrow> None
                         | Some (v, r3) \<Rightarrow>
                             if length r3 < length (skip_ws r2) then
                               (case skip_ws r3 of
                                  [] \<Rightarrow> None
                                | d # r4 \<Rightarrow>
                                    if d = 125 then Some (AList.update key v pairs, r4)
                                    else if d = 44
                                    then parse_object flt (AList.update key v pairs) (skip_ws r4)
                                    else None)
                             else None))))"
  by pat_completeness auto

termination
  apply (relation "measure (\<lambda>x. case x of
           Inl (flt, s) \<Rightarrow> 2 * length s
         | Inr (Inl (flt, values, s)) \<Rightarrow> 2 * length s + 1
         | Inr (Inr (flt, pairs, s)) \<Rightarrow> 2 * length s + 1)")
  subgoal by simp
  subgoal for flt c cs using length_skip_ws [of cs] by simp
  subgoal for flt c cs using length_skip_ws [of cs] by simp
  subgoal by simp
  subgoal for flt vals s x2 v r d r'
    using skip_ws_Cons_shorter [of r d r'] length_skip_ws [of r'] by simp
  subgoal for flt pairs s q ks x2 key r1 colon r2
    using scanstring_shorter [of ks key r1] skip_ws_Cons_shorter [of r1 colon r2]
      length_skip_ws [of r2] by simp
  subgoal for flt pairs s q ks x2 key r1 colon r2 x2a v r3 d r4
    using scanstring_shorter [of ks key r1] skip_ws_Cons_shorter [of r1 colon r2]
      length_skip_ws [of r2] skip_ws_Cons_shorter [of r3 d r4] length_skip_ws [of r4] by simp
  done

declare scan_once.simps [simp del] parse_array.simps [simp del] parse_object.simps [simp del]

text \<open>
  \<^verbatim>\<open>json.loads(s)\<close> for a string: a leading byte order mark is refused, whitespace is
  skipped before and after the value, and nothing else may follow it.
\<close>

definition json_loads :: "(pystr \<Rightarrow> pyfloat) \<Rightarrow> pystr \<Rightarrow> json option" where
  "json_loads flt s =
     (if take 1 s = [65279] then None
      else case scan_once flt (skip_ws s) of
             None \<Rightarrow> None
           | Some (v, r) \<Rightarrow> if skip_ws r = [] then Some v else None)"

section \<open>The tool schema translator\<close>






section \<open>The response translator\<close>

text \<open>
  Lines 125 to 133 of \<^verbatim>\<open>parse_openai_response\<close>:
  \<^verbatim>\<open>
  parsed_args = {}
  if isinstance(args, str) and args.strip():
      try:
          parsed_args = json.loads(args)
      except json.JSONDecodeError:
          parsed_args = {"_raw": args}
  elif isinstance(args, dict):
      parsed_args = args
  \<close>
\<close>

definition parse_arguments :: "(pystr \<Rightarrow> pyfloat) \<Rightarrow> json \<Rightarrow> json" where
  "parse_arguments flt args =
     (case args of
        JStr s \<Rightarrow>
          if strip s \<noteq> [] then
            (case json_loads flt s of Some v \<Rightarrow> v | None \<Rightarrow> JObj [(py ''_raw'', JStr s)])
          else JObj []
      | JObj kvs \<Rightarrow> JObj kvs
      | _ \<Rightarrow> JObj [])"








section \<open>The backend payload built by \<^verbatim>\<open>main\<close>\<close>


section \<open>Properties of the request translator\<close>

subsection \<open>Vocabulary of the statements\<close>

text \<open>A block of a given type is a dictionary whose \<^verbatim>\<open>"type"\<close> entry is that string;
  \<open>fields\<close> are the entries of a dictionary block.\<close>

fun fields :: "json \<Rightarrow> (pystr \<times> json) list" where
  "fields (JObj kvs) = kvs"
| "fields _ = []"

fun has_type :: "string \<Rightarrow> json \<Rightarrow> bool" where
  "has_type t (JObj block) = (dict_get block (py ''type'') = JStr (py t))"
| "has_type t _ = False"

text \<open>The tool message of one tool-result block, and the text a user-role message takes
  from any other block.\<close>

definition tool_result_message :: "json \<Rightarrow> json" where
  "tool_result_message b =
     tool_message (call_id (fields b)) (to_text (dict_get (fields b) (py ''content'')))"

definition user_text :: "json \<Rightarrow> pystr" where
  "user_text b =
     (if has_type ''text'' b then to_text (dict_get (fields b) (py ''text'')) else to_text b)"

lemma py_neq [simp]:
  "py ''tool_result'' \<noteq> py ''text''" "py ''text'' \<noteq> py ''tool_use''"
  "py ''text'' \<noteq> py ''tool_result''" "py ''tool_use'' \<noteq> py ''text''"
  "py ''user'' \<noteq> py ''assistant''"
  by (simp_all add: py_def)

subsection \<open>User messages\<close>

lemma user_loop_eq:
  "user_loop blocks out text_parts =
     (out @ map tool_result_message (filter (has_type ''tool_result'') blocks),
      text_parts @ map user_text (filter (\<lambda>b. \<not> has_type ''tool_result'' b) blocks))"
  by (induction blocks out text_parts rule: user_loop.induct)
     (simp_all add: Let_def tool_result_message_def user_text_def)

text \<open>
  C3. For a user-role message whose content is a list of blocks, every tool-result block
  gives one tool message, in the order of the blocks; when there is any other block, one
  user message with the newline-joined texts of the other blocks comes before all the
  tool messages, however the blocks were interleaved. An empty list gives one empty user
  message. In particular a single tool-result block gives exactly its tool message.
\<close>

theorem user_blocks_split:
  "blocks_to_openai_messages (py ''user'') (JArr blocks) =
     (let results = filter (has_type ''tool_result'') blocks;
          others = filter (\<lambda>b. \<not> has_type ''tool_result'' b) blocks
      in if blocks = [] then [message (py ''user'') []]
         else (if others = [] then []
               else [message (py ''user'') (join [10] (map user_text others))])
              @ map tool_result_message results)
   \<and> (has_type ''tool_result'' b \<longrightarrow>
        blocks_to_openai_messages (py ''user'') (JArr [b]) = [tool_result_message b])"
proof -
  have nonempty: "blocks \<noteq> [] \<Longrightarrow> filter (\<lambda>b. \<not> has_type ''tool_result'' b) blocks = []
      \<Longrightarrow> filter (has_type ''tool_result'') blocks \<noteq> []"
    by (cases blocks) (auto simp: filter_empty_conv)
  show ?thesis
    using nonempty by (auto simp: user_loop_eq Let_def)
qed

text \<open>The example of the specification: one tool result \<^verbatim>\<open>t1\<close> with content \<^verbatim>\<open>42\<close>.\<close>

theorem user_blocks_split_witness:
  "has_type ''tool_result''
     (JObj [(py ''type'', JStr (py ''tool_result'')), (py ''tool_use_id'', JStr (py ''t1'')),
            (py ''content'', JStr (py ''42''))])
   \<and> blocks_to_openai_messages (py ''user'')
        (JArr [JObj [(py ''type'', JStr (py ''tool_result'')),
                     (py ''tool_use_id'', JStr (py ''t1'')),
                     (py ''content'', JStr (py ''42''))]])
      = [JObj [(py ''role'', JStr (py ''tool'')), (py ''tool_call_id'', JStr (py ''t1'')),
               (py ''content'', JStr (py ''42''))]]"
  using user_blocks_split
    [of "[JObj [(py ''type'', JStr (py ''tool_result'')), (py ''tool_use_id'', JStr (py ''t1'')),
                (py ''content'', JStr (py ''42''))]]"
        "JObj [(py ''type'', JStr (py ''tool_result'')), (py ''tool_use_id'', JStr (py ''t1'')),
               (py ''content'', JStr (py ''42''))]"]
  by (simp add: tool_result_message_def tool_message_def call_id_def dict_get_def py_or_def py_def)

subsection \<open>Assistant messages\<close>

definition assistant_text :: "json \<Rightarrow> pystr list" where
  "assistant_text b =
     (case b of
        JObj block \<Rightarrow> if has_type ''text'' b then [to_text (dict_get block (py ''text''))] else []
      | _ \<Rightarrow> [to_text b])"

definition tool_use_blocks :: "json \<Rightarrow> json list" where
  "tool_use_blocks content =
     (case content of JArr blocks \<Rightarrow> filter (has_type ''tool_use'') blocks | _ \<Rightarrow> [])"

definition has_key :: "json \<Rightarrow> pystr \<Rightarrow> bool" where
  "has_key m k \<longleftrightarrow> k \<in> set (map fst (fields m))"

lemma assistant_loop_eq:
  "assistant_loop blocks text_parts tool_calls =
     (text_parts @ concat (map assistant_text blocks),
      tool_calls @ map (\<lambda>b. tool_call (fields b)) (filter (has_type ''tool_use'') blocks))"
  by (induction blocks text_parts tool_calls rule: assistant_loop.induct)
     (simp_all add: Let_def assistant_text_def)

lemma join_filter_Nil: "join sep (filter (\<lambda>x. x \<noteq> []) []) = []"
  by simp

lemma only_tool_use_no_text:
  "list_all (has_type ''tool_use'') blocks \<Longrightarrow> concat (map assistant_text blocks) = []"
  by (induction blocks) (auto simp: assistant_text_def split: json.splits)

lemma py_keys [simp]:
  "py ''tool_calls'' \<noteq> py ''role''" "py ''tool_calls'' \<noteq> py ''content''"
  by (simp_all add: py_def)

text \<open>
  C5. An assistant-role message whose blocks are all tool-use blocks gives exactly one
  assistant message with empty content whose tool calls are the calls of the blocks, one
  for one and in the same order. For every assistant-role message, whatever its content,
  the key \<^verbatim>\<open>tool_calls\<close> is present exactly when the content holds a tool-use block.
\<close>

theorem assistant_tool_calls:
  "(list_all (has_type ''tool_use'') blocks \<longrightarrow>
      blocks_to_openai_messages (py ''assistant'') (JArr blocks) =
        [JObj ([(py ''role'', JStr (py ''assistant'')), (py ''content'', JStr [])]
               @ (if blocks = [] then []
                  else [(py ''tool_calls'', JArr (map (\<lambda>b. tool_call (fields b)) blocks))]))])
   \<and> (\<exists>m. blocks_to_openai_messages (py ''assistant'') content = [m]
          \<and> (has_key m (py ''tool_calls'') \<longleftrightarrow> tool_use_blocks content \<noteq> []))"
proof (intro conjI impI)
  assume only: "list_all (has_type ''tool_use'') blocks"
  then have "filter (has_type ''tool_use'') blocks = blocks"
    by (simp add: list_all_iff filter_id_conv)
  with only show "blocks_to_openai_messages (py ''assistant'') (JArr blocks) =
        [JObj ([(py ''role'', JStr (py ''assistant'')), (py ''content'', JStr [])]
               @ (if blocks = [] then []
                  else [(py ''tool_calls'', JArr (map (\<lambda>b. tool_call (fields b)) blocks))]))]"
    by (simp add: assistant_loop_eq only_tool_use_no_text)
next
  show "\<exists>m. blocks_to_openai_messages (py ''assistant'') content = [m]
          \<and> (has_key m (py ''tool_calls'') \<longleftrightarrow> tool_use_blocks content \<noteq> [])"
    by (cases content)
       (auto simp: assistant_loop_eq has_key_def tool_use_blocks_def message_def)
qed


text \<open>The example of the specification: one call of \<^verbatim>\<open>search\<close> with input
  \<^verbatim>\<open>{"q": "x"}\<close>.\<close>

theorem assistant_tool_calls_witness:
  "list_all (has_type ''tool_use'')
     [JObj [(py ''type'', JStr (py ''tool_use'')), (py ''id'', JStr (py ''t1'')),
            (py ''name'', JStr (py ''search'')),
            (py ''input'', JObj [(py ''q'', JStr (py ''x''))])]]
   \<and> blocks_to_openai_messages (py ''assistant'')
        (JArr [JObj [(py ''type'', JStr (py ''tool_use'')), (py ''id'', JStr (py ''t1'')),
                     (py ''name'', JStr (py ''search'')),
                     (py ''input'', JObj [(py ''q'', JStr (py ''x''))])]])
      = [JObj [(py ''role'', JStr (py ''assistant'')), (py ''content'', JStr []),
               (py ''tool_calls'',
                  JArr [JObj [(py ''id'', JStr (py ''t1'')), (py ''type'', JStr (py ''function'')),
                              (py ''function'',
                                 JObj [(py ''name'', JStr (py ''search'')),
                                       (py ''arguments'',
                                          JStr [123, 34, 113, 34, 58, 32, 34, 120, 34, 125])])]])]]"
  using assistant_tool_calls
    [of "[JObj [(py ''type'', JStr (py ''tool_use'')), (py ''id'', JStr (py ''t1'')),
                (py ''name'', JStr (py ''search'')),
                (py ''input'', JObj [(py ''q'', JStr (py ''x''))])]]"]
  by (simp add: tool_call_def dict_get_def py_or_def py_def encode_basestring_def escape_char_def)

subsection \<open>Blocks of no recognised shape\<close>

fun is_dict :: "json \<Rightarrow> bool" where
  "is_dict (JObj kvs) = True"
| "is_dict _ = False"

lemma join_contains: "x \<in> set xs \<Longrightarrow> \<exists>pre post. join sep xs = pre @ x @ post"
proof (induction sep xs rule: join.induct)
  case (1 sep)
  then show ?case by simp
next
  case (2 sep y)
  then have "join sep [y] = [] @ x @ []" by simp
  then show ?case by blast
next
  case (3 sep y z zs)
  show ?case
  proof (cases "x = y")
    case True
    then have "join sep (y # z # zs) = [] @ x @ (sep @ join sep (z # zs))" by simp
    then show ?thesis by blast
  next
    case False
    with 3 obtain pre post where "join sep (z # zs) = pre @ x @ post" by auto
    then have "join sep (y # z # zs) = (y @ sep @ pre) @ x @ post" by simp
    then show ?thesis by blast
  qed
qed

text \<open>
  C7. The claim describes what the user loop does with a block of no recognised shape
  (its last \<^verbatim>\<open>else\<close>, lines 76 and 77) and what the assistant loop does with a block
  that is not a dictionary (lines 32 to 34). The assistant loop has no such \<^verbatim>\<open>else\<close>
  after its test for \<^verbatim>\<open>tool_use\<close>: a dictionary block of an unknown type, here
  \<^verbatim>\<open>{"type": "image"}\<close>, adds nothing, and the assistant message has empty content although
  the text of the block is not empty. The same block in a user-role message is kept as
  its JSON text.
\<close>

theorem unknown_dict_block_dropped:
  "blocks_to_openai_messages (py ''assistant'') (JArr [JObj [(py ''type'', JStr (py ''image''))]])
     = [JObj [(py ''role'', JStr (py ''assistant'')), (py ''content'', JStr [])]]
   \<and> to_text (JObj [(py ''type'', JStr (py ''image''))]) \<noteq> []
   \<and> blocks_to_openai_messages (py ''user'') (JArr [JObj [(py ''type'', JStr (py ''image''))]])
     = [message (py ''user'') (to_text (JObj [(py ''type'', JStr (py ''image''))]))]"
  by (simp add: dict_get_def py_def)

text \<open>
  The paths that do what C7 says: in a user-role message every block that is not a text,
  tool-use or tool-result dictionary is turned into text by \<open>to_text\<close> and that text is
  part of the content of the user message, which comes first; in an assistant-role
  message the same holds for every block that is not a dictionary.
\<close>

lemma opaque_blocks_text:
  assumes "b \<in> set blocks"
  shows "(\<not> has_type ''text'' b \<and> \<not> has_type ''tool_use'' b \<and> \<not> has_type ''tool_result'' b \<longrightarrow>
           (\<exists>pre post rest. blocks_to_openai_messages (py ''user'') (JArr blocks) =
               message (py ''user'') (pre @ to_text b @ post) # rest))
       \<and> (\<not> is_dict b \<longrightarrow>
           (\<exists>pre post tcs. blocks_to_openai_messages (py ''assistant'') (JArr blocks) =
               [JObj ([(py ''role'', JStr (py ''assistant'')),
                       (py ''content'', JStr (pre @ to_text b @ post))] @ tcs)]))"
proof (intro conjI impI)
  assume unk: "\<not> has_type ''text'' b \<and> \<not> has_type ''tool_use'' b \<and> \<not> has_type ''tool_result'' b"
  let ?others = "filter (\<lambda>b. \<not> has_type ''tool_result'' b) blocks"
  from assms unk have mem: "b \<in> set ?others" by simp
  then have "to_text b \<in> set (map user_text ?others)"
    using unk by (force simp: user_text_def)
  then obtain pre post where "join [10] (map user_text ?others) = pre @ to_text b @ post"
    using join_contains by blast
  moreover from length_pos_if_in_set [OF mem] have "?others \<noteq> []"
    by fastforce
  moreover from assms have "blocks \<noteq> []" by auto
  ultimately show "\<exists>pre post rest. blocks_to_openai_messages (py ''user'') (JArr blocks) =
               message (py ''user'') (pre @ to_text b @ post) # rest"
    by (auto simp: user_loop_eq)
next
  assume nd: "\<not> is_dict b"
  let ?texts = "concat (map assistant_text blocks)"
  from nd have "assistant_text b = [to_text b]"
    by (cases b) (simp_all add: assistant_text_def)
  with assms have mem: "to_text b \<in> set ?texts" by force
  have "\<exists>pre post. join [10] (filter (\<lambda>x. x \<noteq> []) ?texts) = pre @ to_text b @ post"
  proof (cases "to_text b = []")
    case True
    then have "join [10] (filter (\<lambda>x. x \<noteq> []) ?texts)
        = [] @ to_text b @ join [10] (filter (\<lambda>x. x \<noteq> []) ?texts)" by simp
    then show ?thesis by blast
  next
    case False
    with mem have "to_text b \<in> set (filter (\<lambda>x. x \<noteq> []) ?texts)" by simp
    then show ?thesis by (rule join_contains)
  qed
  then obtain pre post where
    "join [10] (filter (\<lambda>x. x \<noteq> []) ?texts) = pre @ to_text b @ post" by blast
  moreover from length_pos_if_in_set [OF mem] have "?texts \<noteq> []"
    by fastforce
  ultimately show "\<exists>pre post tcs. blocks_to_openai_messages (py ''assistant'') (JArr blocks) =
               [JObj ([(py ''role'', JStr (py ''assistant'')),
                       (py ''content'', JStr (pre @ to_text b @ post))] @ tcs)]"
    by (auto simp: assistant_loop_eq)
qed

subsection \<open>The message list of a request\<close>

fun is_str :: "json \<Rightarrow> bool" where
  "is_str (JStr s) = True"
| "is_str _ = False"

text \<open>A message the loop of \<open>canonical_to_openai_messages\<close> accepts: a dictionary whose
  role is missing, false in the sense of \<^const>\<open>truthy\<close>, or a string.\<close>

fun wf_message :: "json \<Rightarrow> bool" where
  "wf_message (JObj kvs) = is_str (py_or (dict_get kvs (py ''role'')) (JStr (py ''user'')))"
| "wf_message _ = False"

lemma blocks_to_openai_messages_nonempty: "blocks_to_openai_messages role content \<noteq> []"
  by (cases content) (auto simp: user_loop_eq assistant_loop_eq Let_def)

lemma message_to_openai_wf:
  assumes "wf_message m"
  shows "\<exists>ms. message_to_openai m = Inr ms \<and> ms \<noteq> []"
proof -
  from assms obtain kvs where m: "m = JObj kvs" by (cases m) auto
  with assms obtain r where "py_or (dict_get kvs (py ''role'')) (JStr (py ''user'')) = JStr r"
    by (cases "py_or (dict_get kvs (py ''role'')) (JStr (py ''user''))") auto
  with m show ?thesis
    by (simp add: message_to_openai_def ebind_def Let_def blocks_to_openai_messages_nonempty)
qed

lemma messages_loop_wf:
  "list_all wf_message ms \<Longrightarrow>
     \<exists>added. messages_loop ms out = Inr (out @ added) \<and> length ms \<le> length added
        \<and> (ms = [] \<longrightarrow> added = [])"
proof (induction ms arbitrary: out)
  case Nil
  then show ?case by simp
next
  case (Cons m ms)
  then obtain xs where xs: "message_to_openai m = Inr xs" "xs \<noteq> []"
    using message_to_openai_wf by fastforce
  from Cons obtain added where
    added: "messages_loop ms (out @ xs) = Inr ((out @ xs) @ added)" "length ms \<le> length added"
    by fastforce
  from xs added(1) have "messages_loop (m # ms) out = Inr (out @ (xs @ added))"
    by (simp add: ebind_def)
  moreover from xs(2) added(2) have "length (m # ms) \<le> length (xs @ added)"
    by (cases xs) auto
  ultimately show ?case by blast
qed

text \<open>
  C2 as stated fails: a request with no system prompt and an empty message sequence
  gives the empty list of backend messages.
\<close>

theorem no_messages_no_system_prompt:
  "canonical_to_openai_messages JNull (JArr []) = Inr []"
  by (simp add: canonical_to_openai_messages_def ebind_def py_or_def)

text \<open>
  C2, amended. When every message is a dictionary whose role is missing, false or a
  string, the translation returns, with at least one backend message for each canonical
  message and one more for a system prompt whose text is not empty. The result is
  empty exactly when there is no message and no system prompt text.
\<close>

theorem messages_at_least_one_each:
  assumes "list_all wf_message ms"
  shows "\<exists>out. canonical_to_openai_messages system_prompt (JArr ms) = Inr out
           \<and> length ms + (if system_prompt \<noteq> JNull \<and> to_text system_prompt \<noteq> [] then 1 else 0)
               \<le> length out
           \<and> (out = [] \<longleftrightarrow> ms = [] \<and> (system_prompt = JNull \<or> to_text system_prompt = []))"
proof -
  let ?sys = "if system_prompt \<noteq> JNull \<and> to_text system_prompt \<noteq> []
              then [message (py ''system'') (to_text system_prompt)] else []"
  from messages_loop_wf [OF assms, of ?sys] obtain added where
    "messages_loop ms ?sys = Inr (?sys @ added)" "length ms \<le> length added"
    "ms = [] \<longrightarrow> added = []"
    by blast
  moreover have "py_or (JArr ms) (JArr []) = JArr ms"
    by (simp add: py_or_def)
  ultimately have "canonical_to_openai_messages system_prompt (JArr ms) = Inr (?sys @ added)"
    by (simp add: canonical_to_openai_messages_def ebind_def Let_def)
  with \<open>length ms \<le> length added\<close> \<open>ms = [] \<longrightarrow> added = []\<close> show ?thesis
    by (cases ms) auto
qed

theorem messages_at_least_one_each_witness:
  "list_all wf_message [JObj [(py ''role'', JStr (py ''user'')), (py ''content'', JStr (py ''Hi''))]]
   \<and> canonical_to_openai_messages (JStr (py ''Be terse''))
        (JArr [JObj [(py ''role'', JStr (py ''user'')), (py ''content'', JStr (py ''Hi''))]])
      = Inr [message (py ''system'') (py ''Be terse''), message (py ''user'') (py ''Hi'')]"
  using messages_at_least_one_each
    [of "[JObj [(py ''role'', JStr (py ''user'')), (py ''content'', JStr (py ''Hi''))]]"
        "JStr (py ''Be terse'')"]
  by (simp add: canonical_to_openai_messages_def message_to_openai_def ebind_def py_or_def
      dict_get_def strip_def is_space_def py_def)

section \<open>Properties of the tool schema translator and of the payload\<close>


fun is_list :: "json \<Rightarrow> bool" where
  "is_list (JArr vs) = True"
| "is_list _ = False"

fun items :: "json \<Rightarrow> json list" where
  "items (JArr vs) = vs"
| "items _ = []"



lemma strip_Nil [simp]: "strip [] = []"
  by (simp add: strip_def)




subsection \<open>Envelopes that \<^verbatim>\<open>main\<close> turns into a payload\<close>






lemma is_dict_fields: "is_dict v \<Longrightarrow> v = JObj (fields v)"
  by (cases v) auto

lemma is_list_items: "is_list v \<Longrightarrow> v = JArr (items v)"
  by (cases v) auto












section \<open>Properties of the response translator\<close>

subsection \<open>Responses that are translated\<close>


















subsection \<open>The stop reason\<close>












subsection \<open>The input of a tool-use block\<close>

text \<open>Where the input of a tool-use block is an object, and the one way it is not: the
  arguments are a string that is not blank and that decodes to something else.\<close>

lemma parse_arguments_object:
  "is_dict (parse_arguments flt args)
   \<or> (\<exists>s v. args = JStr s \<and> strip s \<noteq> [] \<and> json_loads flt s = Some v \<and> \<not> is_dict v
          \<and> parse_arguments flt args = v)"
  by (cases args) (auto simp: parse_arguments_def split: option.splits)




section \<open>Encoding and decoding the input of a tool call\<close>

subsection \<open>Strings\<close>





subsection \<open>Integers\<close>














subsection \<open>Values\<close>















text \<open>The tests on the length of the remaining text in \<^const>\<open>parse_array\<close> and
  \<^const>\<open>parse_object\<close> serve the termination proof only: the scanner always consumes
  text, so they never fail.\<close>

lemma scan_once_shorter:
    "scan_once flt s = Some (v, r) \<Longrightarrow> length r < length s"
  and parse_array_shorter:
    "parse_array flt acc s = Some (vs, r) \<Longrightarrow> length r < length s"
  and parse_object_shorter:
    "parse_object flt pairs s = Some (kvs, r) \<Longrightarrow> length r < length s"
proof (induction flt s and flt acc s and flt pairs s arbitrary: v r and vs r and kvs r
    rule: scan_once_parse_array_parse_object.induct)
  case (1 flt)
  then show ?case by (simp add: scan_once.simps)
next
  case (2 flt c cs)
  note len = length_skip_ws [of cs]
  consider "c = 34" | "c = 123" | "c = 91" | "c \<noteq> 34" "c \<noteq> 123" "c \<noteq> 91"
    by blast
  then show ?case
  proof cases
    case 1
    with "2.prems" show ?thesis
      by (auto simp: scan_once.simps split: option.splits dest!: scanstring_shorter)
  next
    case 2
    then have c: "c \<noteq> 34" "c = 123" by simp_all
    show ?thesis
    proof (cases "take 1 (skip_ws cs) = [125]")
      case True
      with "2.prems" c len show ?thesis
        by (simp add: scan_once.simps) auto
    next
      case False
      with "2.prems" c obtain a where "parse_object flt [] (skip_ws cs) = Some (a, r)"
        by (auto simp: scan_once.simps split: option.splits)
      from "2.IH"(1) [OF c False this] len show ?thesis by simp
    qed
  next
    case 3
    then have c: "c \<noteq> 34" "c \<noteq> 123" "c = 91" by simp_all
    show ?thesis
    proof (cases "take 1 (skip_ws cs) = [93]")
      case True
      with "2.prems" c len show ?thesis
        by (simp add: scan_once.simps) auto
    next
      case False
      with "2.prems" c obtain a where "parse_array flt [] (skip_ws cs) = Some (a, r)"
        by (auto simp: scan_once.simps split: option.splits)
      from "2.IH"(2) [OF c False this] len show ?thesis by simp
    qed
  next
    case 4
    with "2.prems" show ?thesis
      by (auto simp: scan_once.simps dest!: scan_atom_shorter)
  qed
next
  case (3 flt acc s)
  from "3.prems" obtain v0 r0 where s0: "scan_once flt s = Some (v0, r0)" "length r0 < length s"
    by (subst (asm) parse_array.simps) (auto split: option.splits if_splits)
  with "3.prems" obtain d r' where sk: "skip_ws r0 = d # r'"
    by (subst (asm) parse_array.simps) (auto split: list.splits)
  with s0 "3.prems" have "(d = 93 \<and> r = r') \<or> (d = 44 \<and> parse_array flt (acc @ [v0]) (skip_ws r') = Some (vs, r))"
    by (subst (asm) parse_array.simps) (auto split: if_splits)
  then show ?case
  proof
    assume "d = 93 \<and> r = r'"
    with s0 skip_ws_Cons_shorter [OF sk] show ?thesis by simp
  next
    assume rec: "d = 44 \<and> parse_array flt (acc @ [v0]) (skip_ws r') = Some (vs, r)"
    with "3.IH"(2) [OF s0(1) _ s0(2) sk] have "length r < length (skip_ws r')"
      by auto
    with s0 skip_ws_Cons_shorter [OF sk] length_skip_ws [of r'] show ?thesis by simp
  qed
next
  case (4 flt pairs s)
  from "4.prems" obtain ks where s: "s = 34 # ks"
    by (subst (asm) parse_object.simps) (auto split: list.splits if_splits)
  with "4.prems" obtain key r1 where k: "scanstring ks = Some (key, r1)"
    by (subst (asm) parse_object.simps) (auto split: option.splits)
  with s "4.prems" obtain r2 where c: "skip_ws r1 = 58 # r2"
    by (subst (asm) parse_object.simps) (auto split: list.splits if_splits)
  with s k "4.prems" obtain v0 r3 where
    v0: "scan_once flt (skip_ws r2) = Some (v0, r3)" "length r3 < length (skip_ws r2)"
    by (subst (asm) parse_object.simps) (auto split: option.splits if_splits)
  with s k c "4.prems" obtain d r4 where sk: "skip_ws r3 = d # r4"
    by (subst (asm) parse_object.simps) (auto split: list.splits)
  have bound: "length r4 < length s"
    using s scanstring_shorter [OF k] skip_ws_Cons_shorter [OF c] length_skip_ws [of r2] v0(2)
      skip_ws_Cons_shorter [OF sk] by simp
  from s k c v0 sk "4.prems"
  have "(d = 125 \<and> r = r4)
      \<or> (d = 44 \<and> parse_object flt (AList.update key v0 pairs) (skip_ws r4) = Some (kvs, r))"
    by (subst (asm) parse_object.simps) (auto split: if_splits)
  then show ?case
  proof
    assume "d = 125 \<and> r = r4"
    with bound show ?thesis by simp
  next
    assume rec: "d = 44 \<and> parse_object flt (AList.update key v0 pairs) (skip_ws r4) = Some (kvs, r)"
    have "length r < length (skip_ws r4)"
      using "4.IH"(2) [OF s _ k _ c _ v0(1) _ v0(2) sk] rec by auto
    with bound length_skip_ws [of r4] show ?thesis by simp
  qed
qed


subsection \<open>The round trip of a tool-use input\<close>












end
